theory Spec2Isabelle
  imports Complex_Main
begin

section \<open>Documents, errors and the validation framework\<close>

text \<open>
  The repository is one module, \<^verbatim>\<open>biomero_schema/models.py\<close>: thirteen pydantic
  \<^verbatim>\<open>BaseModel\<close> classes and nothing else (no validator, no method). What the
  module does is what pydantic (version 2) does with these declarations when
  \<^verbatim>\<open>WorkflowSchema.model_validate(doc)\<close> is called on a decoded YAML/JSON tree.
  The embedding has two layers: the framework's rules for one field (this section)
  and the classes, transcribed field by field (next section).

  A document is a tree of the values a YAML/JSON decoder produces. A Python
  \<^verbatim>\<open>dict\<close> is an association list read with \<open>map_of\<close>. Floating point values
  are kept abstract (type \<open>'f\<close>).
\<close>

datatype 'f json =
    JNull
  | JBool bool
  | JInt int
  | JFloat 'f
  | JStr string
  | JList "'f json list"
  | JObj "(string \<times> 'f json) list"

text \<open>
  The error types of pydantic that these models can raise. The specification's
  taxonomy reads them as: \<open>missing\<close> is MissingRequiredField, \<open>too_short\<close> is
  UniquenessViolation ("empty required list"), \<open>literal_error\<close> (with the allowed
  values) is InvalidEnumValue, the \<open>_type\<close> and \<open>_parsing\<close> errors are TypeMismatch.
  No error type of these models corresponds to CrossFieldConstraintViolation.
\<close>

datatype err_kind =
    missing
  | string_type
  | int_type
  | bool_type
  | bool_parsing
  | float_type
  | float_parsing
  | list_type
  | model_type
  | too_short
  | literal_error "string list"

datatype loc_item = LKey string | LIdx nat

record 'f verror =
  loc :: "loc_item list"
  kind :: err_kind
  input :: "'f json"

type_synonym ('f, 'a) result = "'f verror list + 'a"

text \<open>
  In lax mode (the default, which no class here changes) a \<^verbatim>\<open>bool\<close> or
  \<^verbatim>\<open>float\<close> field also accepts some values of another type (\<^verbatim>\<open>"yes"\<close>,
  \<^verbatim>\<open>1\<close>, \<^verbatim>\<open>"1.5"\<close>). That table belongs to pydantic and works on floating
  point numbers; it is a parameter of the model. A value of the exact type never
  reaches it.
\<close>

record 'f coercions =
  lax_bool :: "'f json \<Rightarrow> err_kind + bool"
  lax_float :: "'f json \<Rightarrow> err_kind + 'f"

definition err :: "err_kind \<Rightarrow> 'f json \<Rightarrow> ('f, 'a) result" where
  "err k v = Inl [\<lparr>loc = [], kind = k, input = v\<rparr>]"

definition at_loc :: "loc_item \<Rightarrow> ('f, 'a) result \<Rightarrow> ('f, 'a) result" where
  "at_loc k r = (case r of
       Inl es \<Rightarrow> Inl (map (\<lambda>e. e\<lparr>loc := k # loc e\<rparr>) es)
     | Inr x \<Rightarrow> Inr x)"

text \<open>
  A model validates all its fields and collects every error: \<open>ap\<close> applies the
  record under construction to the next field and appends the field's errors.
\<close>

fun ap :: "('e list + ('a \<Rightarrow> 'b)) \<Rightarrow> ('e list + 'a) \<Rightarrow> ('e list + 'b)" where
  "ap (Inr f) (Inr x) = Inr (f x)"
| "ap (Inr f) (Inl es) = Inl es"
| "ap (Inl es) (Inr x) = Inl es"
| "ap (Inl es) (Inl es') = Inl (es @ es')"

definition errors :: "('e list + 'a) \<Rightarrow> 'e list" where
  "errors r = (case r of Inl es \<Rightarrow> es | Inr x \<Rightarrow> [])"

subsection \<open>Scalar types\<close>

definition validate_str :: "'f json \<Rightarrow> ('f, string) result" where
  "validate_str v = (case v of JStr s \<Rightarrow> Inr s | _ \<Rightarrow> err string_type v)"

definition validate_bool :: "'f coercions \<Rightarrow> 'f json \<Rightarrow> ('f, bool) result" where
  "validate_bool c v = (case v of
       JBool b \<Rightarrow> Inr b
     | _ \<Rightarrow> (case lax_bool c v of Inl k \<Rightarrow> err k v | Inr b \<Rightarrow> Inr b))"

definition validate_float :: "'f coercions \<Rightarrow> 'f json \<Rightarrow> ('f, 'f) result" where
  "validate_float c v = (case v of
       JFloat x \<Rightarrow> Inr x
     | _ \<Rightarrow> (case lax_float c v of Inl k \<Rightarrow> err k v | Inr x \<Rightarrow> Inr x))"

text \<open>\<^verbatim>\<open>Literal["a", "b", ...]\<close>: the value must be one of the listed strings.\<close>

definition validate_literal :: "string list \<Rightarrow> 'f json \<Rightarrow> ('f, string) result" where
  "validate_literal allowed v = (case v of
       JStr s \<Rightarrow> if s \<in> set allowed then Inr s else err (literal_error allowed) v
     | _ \<Rightarrow> err (literal_error allowed) v)"

text \<open>\<^verbatim>\<open>Optional[T]\<close>: \<^verbatim>\<open>None\<close> is accepted, anything else is a \<^verbatim>\<open>T\<close>.\<close>

definition nullable :: "('f json \<Rightarrow> ('f, 'a) result) \<Rightarrow> 'f json \<Rightarrow> ('f, 'a option) result" where
  "nullable val v = (case v of
       JNull \<Rightarrow> Inr None
     | _ \<Rightarrow> (case val v of Inl es \<Rightarrow> Inl es | Inr x \<Rightarrow> Inr (Some x)))"

subsection \<open>Lists\<close>

fun validate_items :: "('f json \<Rightarrow> ('f, 'a) result) \<Rightarrow> nat \<Rightarrow> 'f json list \<Rightarrow> ('f, 'a list) result" where
  "validate_items val i [] = Inr []"
| "validate_items val i (x # xs) =
     ap (ap (Inr (#)) (at_loc (LIdx i) (val x))) (validate_items val (Suc i) xs)"

definition validate_list :: "('f json \<Rightarrow> ('f, 'a) result) \<Rightarrow> 'f json \<Rightarrow> ('f, 'a list) result" where
  "validate_list val v = (case v of JList xs \<Rightarrow> validate_items val 0 xs | _ \<Rightarrow> err list_type v)"

text \<open>
  \<^verbatim>\<open>Field(..., min_length=n)\<close> on a list: the items are validated first, the
  length is checked when they are all valid.
\<close>

definition validate_list_min :: "nat \<Rightarrow> ('f json \<Rightarrow> ('f, 'a) result) \<Rightarrow> 'f json \<Rightarrow> ('f, 'a list) result" where
  "validate_list_min n val v = (case validate_list val v of
       Inl es \<Rightarrow> Inl es
     | Inr ys \<Rightarrow> if length ys < n then err too_short v else Inr ys)"

subsection \<open>Unions\<close>

text \<open>
  \<^verbatim>\<open>Union[str, int, float, bool]\<close> (smart mode): a value of one of the four types
  is kept as it is; any other value fails in every member, one error per member.
\<close>

datatype 'f scalar = VStr string | VInt int | VFloat 'f | VBool bool

definition validate_scalar :: "'f json \<Rightarrow> ('f, 'f scalar) result" where
  "validate_scalar v = (case v of
       JStr s \<Rightarrow> Inr (VStr s)
     | JInt i \<Rightarrow> Inr (VInt i)
     | JFloat x \<Rightarrow> Inr (VFloat x)
     | JBool b \<Rightarrow> Inr (VBool b)
     | _ \<Rightarrow> Inl [\<lparr>loc = [LKey ''str''], kind = string_type, input = v\<rparr>,
                \<lparr>loc = [LKey ''int''], kind = int_type, input = v\<rparr>,
                \<lparr>loc = [LKey ''float''], kind = float_type, input = v\<rparr>,
                \<lparr>loc = [LKey ''bool''], kind = bool_type, input = v\<rparr>])"

text \<open>\<^verbatim>\<open>Union[str, List[str]]\<close>.\<close>

datatype str_or_list = One string | Many "string list"

definition validate_str_or_list :: "'f json \<Rightarrow> ('f, str_or_list) result" where
  "validate_str_or_list v = (case v of
       JStr s \<Rightarrow> Inr (One s)
     | _ \<Rightarrow> (case validate_list validate_str v of
                Inr ss \<Rightarrow> Inr (Many ss)
              | Inl es \<Rightarrow> ap (at_loc (LKey ''str'') (err string_type v))
                           (at_loc (LKey ''list[str]'') (Inl es :: ('f, unit) result))))"

subsection \<open>Fields of a model\<close>

text \<open>
  A field is looked up under the keys the model accepts for it: its alias (or its
  name, when it has no alias), and, in a model configured with
  \<^verbatim>\<open>populate_by_name\<close>, its name after the alias. Keys of the document that no
  field accepts are ignored (\<^verbatim>\<open>extra = 'ignore'\<close>, the default).
\<close>

fun lookup :: "string list \<Rightarrow> (string \<times> 'v) list \<Rightarrow> (string \<times> 'v) option" where
  "lookup [] kvs = None"
| "lookup (k # ks) kvs = (case map_of kvs k of Some v \<Rightarrow> Some (k, v) | None \<Rightarrow> lookup ks kvs)"

text \<open>\<^verbatim>\<open>Field(...)\<close>: the field is required.\<close>

definition required :: "string list \<Rightarrow> ('f json \<Rightarrow> ('f, 'a) result) \<Rightarrow> (string \<times> 'f json) list \<Rightarrow> ('f, 'a) result" where
  "required keys val kvs = (case lookup keys kvs of
       None \<Rightarrow> Inl [\<lparr>loc = [LKey (hd keys)], kind = missing, input = JObj kvs\<rparr>]
     | Some (k, v) \<Rightarrow> at_loc (LKey k) (val v))"

text \<open>
  \<^verbatim>\<open>Field(d, ...)\<close>: when the field is absent the record gets \<open>d\<close>, which is not
  validated (\<^verbatim>\<open>validate_default\<close> is off).
\<close>

definition with_default :: "string list \<Rightarrow> 'a \<Rightarrow> ('f json \<Rightarrow> ('f, 'a) result) \<Rightarrow> (string \<times> 'f json) list \<Rightarrow> ('f, 'a) result" where
  "with_default keys d val kvs = (case lookup keys kvs of
       None \<Rightarrow> Inr d
     | Some (k, v) \<Rightarrow> at_loc (LKey k) (val v))"

text \<open>A nested model takes a dictionary.\<close>

definition validate_model :: "((string \<times> 'f json) list \<Rightarrow> ('f, 'a) result) \<Rightarrow> 'f json \<Rightarrow> ('f, 'a) result" where
  "validate_model flds v = (case v of JObj kvs \<Rightarrow> flds kvs | _ \<Rightarrow> err model_type v)"

section \<open>The models\<close>

text \<open>
  One record and one validator per class, the fields in the order of the class. A
  field declared \<^verbatim>\<open>Optional[T] = Field(None, ...)\<close> is \<open>None\<close> in the record when the
  document does not give it: the defaults that the field descriptions mention
  ("Defaults to id", "Defaults to '/inputs'") are text of the description, the
  module has no code that applies them. Only \<^verbatim>\<open>WorkflowSchema\<close> has a
  \<^verbatim>\<open>Config\<close>, and pydantic does not hand a model's configuration down to the
  models nested in it: every other class reads an aliased field under its alias
  alone.
\<close>

record Author =
  name :: string
  email :: "string option"
  affiliations :: "string list option"

definition validate_Author :: "'f json \<Rightarrow> ('f, Author) result" where
  "validate_Author = validate_model (\<lambda>kvs.
     ap (ap (ap (Inr (\<lambda>a b c. \<lparr>Author.name = a, Author.email = b, Author.affiliations = c\<rparr>))
       (required [''name''] validate_str kvs))
       (with_default [''email''] None (nullable validate_str) kvs))
       (with_default [''affiliations''] None (nullable (validate_list validate_str)) kvs))"

record Institution =
  id :: string
  name :: "string option"

definition validate_Institution :: "'f json \<Rightarrow> ('f, Institution) result" where
  "validate_Institution = validate_model (\<lambda>kvs.
     ap (ap (Inr (\<lambda>a b. \<lparr>Institution.id = a, Institution.name = b\<rparr>))
       (required [''id''] validate_str kvs))
       (with_default [''name''] None (nullable validate_str) kvs))"

record Citation =
  name :: string
  doi :: "string option"
  license :: string
  description :: "string option"

definition validate_Citation :: "'f json \<Rightarrow> ('f, Citation) result" where
  "validate_Citation = validate_model (\<lambda>kvs.
     ap (ap (ap (ap (Inr (\<lambda>a b c d.
        \<lparr>Citation.name = a, Citation.doi = b, Citation.license = c, Citation.description = d\<rparr>))
       (required [''name''] validate_str kvs))
       (with_default [''doi''] None (nullable validate_str) kvs))
       (required [''license''] validate_str kvs))
       (with_default [''description''] None (nullable validate_str) kvs))"

record ContainerImage =
  image :: string
  type :: string
  platforms :: "string list option"

definition ContainerImage_type :: "string list" where
  "ContainerImage_type = [''oci'', ''singularity'']"

definition validate_ContainerImage :: "'f json \<Rightarrow> ('f, ContainerImage) result" where
  "validate_ContainerImage = validate_model (\<lambda>kvs.
     ap (ap (ap (Inr (\<lambda>a b c.
        \<lparr>ContainerImage.image = a, ContainerImage.type = b, ContainerImage.platforms = c\<rparr>))
       (required [''image''] validate_str kvs))
       (required [''type''] (validate_literal ContainerImage_type) kvs))
       (with_default [''platforms''] None (nullable (validate_list validate_str)) kvs))"

record 'f CudaRequirements =
  device_memory_min :: "'f option"
  cuda_compute_capability :: "str_or_list option"

definition validate_CudaRequirements :: "'f coercions \<Rightarrow> 'f json \<Rightarrow> ('f, 'f CudaRequirements) result" where
  "validate_CudaRequirements c = validate_model (\<lambda>kvs.
     ap (ap (Inr (\<lambda>a b.
        \<lparr>CudaRequirements.device_memory_min = a, CudaRequirements.cuda_compute_capability = b\<rparr>))
       (with_default [''device-memory-min''] None (nullable (validate_float c)) kvs))
       (with_default [''cuda-compute-capability''] None (nullable validate_str_or_list) kvs))"

record 'f Resources =
  networking :: "bool option"
  ram_min :: "'f option"
  cores_min :: "'f option"
  gpu :: "bool option"
  cuda_requirements :: "'f CudaRequirements option"
  cpuAVX :: "bool option"
  cpuAVX2 :: "bool option"

definition validate_Resources :: "'f coercions \<Rightarrow> 'f json \<Rightarrow> ('f, 'f Resources) result" where
  "validate_Resources c = validate_model (\<lambda>kvs.
     ap (ap (ap (ap (ap (ap (ap (Inr (\<lambda>a b d e f g h.
        \<lparr>Resources.networking = a, Resources.ram_min = b, Resources.cores_min = d,
         Resources.gpu = e, Resources.cuda_requirements = f, Resources.cpuAVX = g,
         Resources.cpuAVX2 = h\<rparr>))
       (with_default [''networking''] None (nullable (validate_bool c)) kvs))
       (with_default [''ram-min''] None (nullable (validate_float c)) kvs))
       (with_default [''cores-min''] None (nullable (validate_float c)) kvs))
       (with_default [''gpu''] None (nullable (validate_bool c)) kvs))
       (with_default [''cuda-requirements''] None (nullable (validate_CudaRequirements c)) kvs))
       (with_default [''cpuAVX''] None (nullable (validate_bool c)) kvs))
       (with_default [''cpuAVX2''] None (nullable (validate_bool c)) kvs))"

record 'f Configuration =
  input_folder :: "string option"
  output_folder :: "string option"
  resources :: "'f Resources option"

definition validate_Configuration :: "'f coercions \<Rightarrow> 'f json \<Rightarrow> ('f, 'f Configuration) result" where
  "validate_Configuration c = validate_model (\<lambda>kvs.
     ap (ap (ap (Inr (\<lambda>a b d.
        \<lparr>Configuration.input_folder = a, Configuration.output_folder = b,
         Configuration.resources = d\<rparr>))
       (with_default [''input_folder''] None (nullable validate_str) kvs))
       (with_default [''output_folder''] None (nullable validate_str) kvs))
       (with_default [''resources''] None (nullable (validate_Resources c)) kvs))"

text \<open>
  The three classes of type-specific fields. No other class refers to them:
  \<^verbatim>\<open>Parameter\<close> declares \<^verbatim>\<open>format\<close> and \<^verbatim>\<open>sub_type\<close> itself, as optional
  strings.
\<close>

record FileParameter =
  format :: string

definition validate_FileParameter :: "'f json \<Rightarrow> ('f, FileParameter) result" where
  "validate_FileParameter = validate_model (\<lambda>kvs.
     ap (Inr (\<lambda>a. \<lparr>FileParameter.format = a\<rparr>))
       (required [''format''] validate_str kvs))"

record ImageParameter =
  sub_type :: string
  format :: string

definition ImageParameter_sub_type :: "string list" where
  "ImageParameter_sub_type = [''grayscale'', ''color'', ''binary'', ''labeled'', ''class'']"

definition ImageParameter_format :: "string list" where
  "ImageParameter_format = [''tif'', ''png'', ''jpg'', ''jpeg'', ''tiff'', ''ometiff'']"

definition validate_ImageParameter :: "'f json \<Rightarrow> ('f, ImageParameter) result" where
  "validate_ImageParameter = validate_model (\<lambda>kvs.
     ap (ap (Inr (\<lambda>a b. \<lparr>ImageParameter.sub_type = a, ImageParameter.format = b\<rparr>))
       (required [''sub-type''] (validate_literal ImageParameter_sub_type) kvs))
       (required [''format''] (validate_literal ImageParameter_format) kvs))"

record ArrayParameter =
  format :: string

definition ArrayParameter_format :: "string list" where
  "ArrayParameter_format = [''npy'', ''npz'']"

definition validate_ArrayParameter :: "'f json \<Rightarrow> ('f, ArrayParameter) result" where
  "validate_ArrayParameter = validate_model (\<lambda>kvs.
     ap (Inr (\<lambda>a. \<lparr>ArrayParameter.format = a\<rparr>))
       (required [''format''] (validate_literal ArrayParameter_format) kvs))"

record 'f Parameter =
  id :: string
  type :: string
  name :: "string option"
  description :: "string option"
  value_key :: "string option"
  command_line_flag :: "string option"
  default_value :: "'f scalar option"
  optional :: "bool option"
  set_by_server :: "bool option"
  format :: "string option"
  sub_type :: "string option"

definition Parameter_type :: "string list" where
  "Parameter_type = [''Number'', ''String'', ''integer'', ''float'', ''boolean'', ''string'',
     ''file'', ''image'', ''array'']"

definition validate_Parameter :: "'f coercions \<Rightarrow> 'f json \<Rightarrow> ('f, 'f Parameter) result" where
  "validate_Parameter c = validate_model (\<lambda>kvs.
     ap (ap (ap (ap (ap (ap (ap (ap (ap (ap (ap (Inr (\<lambda>a b d e f g h i j k l.
        \<lparr>Parameter.id = a, Parameter.type = b, Parameter.name = d, Parameter.description = e,
         Parameter.value_key = f, Parameter.command_line_flag = g, Parameter.default_value = h,
         Parameter.optional = i, Parameter.set_by_server = j, Parameter.format = k,
         Parameter.sub_type = l\<rparr>))
       (required [''id''] validate_str kvs))
       (required [''type''] (validate_literal Parameter_type) kvs))
       (with_default [''name''] None (nullable validate_str) kvs))
       (with_default [''description''] None (nullable validate_str) kvs))
       (with_default [''value-key''] None (nullable validate_str) kvs))
       (with_default [''command-line-flag''] None (nullable validate_str) kvs))
       (with_default [''default-value''] None (nullable validate_scalar) kvs))
       (with_default [''optional''] None (nullable (validate_bool c)) kvs))
       (with_default [''set-by-server''] None (nullable (validate_bool c)) kvs))
       (with_default [''format''] None (nullable validate_str) kvs))
       (with_default [''sub-type''] None (nullable validate_str) kvs))"

record 'f OutputParameter =
  id :: string
  type :: string
  name :: "string option"
  description :: "string option"
  value_key :: "string option"
  command_line_flag :: "string option"
  default_value :: "'f scalar option"
  optional :: "bool option"
  set_by_server :: "bool option"

definition OutputParameter_type :: "string list" where
  "OutputParameter_type = [''Number'', ''String'']"

definition validate_OutputParameter :: "'f coercions \<Rightarrow> 'f json \<Rightarrow> ('f, 'f OutputParameter) result" where
  "validate_OutputParameter c = validate_model (\<lambda>kvs.
     ap (ap (ap (ap (ap (ap (ap (ap (ap (Inr (\<lambda>a b d e f g h i j.
        \<lparr>OutputParameter.id = a, OutputParameter.type = b, OutputParameter.name = d,
         OutputParameter.description = e, OutputParameter.value_key = f,
         OutputParameter.command_line_flag = g, OutputParameter.default_value = h,
         OutputParameter.optional = i, OutputParameter.set_by_server = j\<rparr>))
       (required [''id''] validate_str kvs))
       (required [''type''] (validate_literal OutputParameter_type) kvs))
       (with_default [''name''] None (nullable validate_str) kvs))
       (with_default [''description''] None (nullable validate_str) kvs))
       (with_default [''value-key''] None (nullable validate_str) kvs))
       (with_default [''command-line-flag''] None (nullable validate_str) kvs))
       (with_default [''default-value''] None (nullable validate_scalar) kvs))
       (with_default [''optional''] None (nullable (validate_bool c)) kvs))
       (with_default [''set-by-server''] None (nullable (validate_bool c)) kvs))"

record 'f WorkflowSchema =
  name :: string
  description :: string
  schema_version :: string
  authors :: "Author list"
  institutions :: "Institution list"
  citations :: "Citation list"
  problem_class :: "string option"
  container_image :: ContainerImage
  configuration :: "'f Configuration option"
  inputs :: "'f Parameter list"
  outputs :: "'f OutputParameter list"
  command_line :: string

definition WorkflowSchema_problem_class :: "string list" where
  "WorkflowSchema_problem_class = [''object-segmentation'', ''pixel-classification'',
     ''object-counting'', ''object-detection'', ''filament-tree-tracing'',
     ''filament-networks-tracing'', ''landmark-detection'', ''particle-tracking'',
     ''object-tracking'']"

text \<open>
  \<^verbatim>\<open>populate_by_name = True\<close>: the four aliased fields of this class are read
  under the alias and, when the alias is absent, under the name. \<^verbatim>\<open>citations\<close>
  is declared \<^verbatim>\<open>Field([], min_length=1)\<close>: a default and a length constraint.
\<close>

definition validate_WorkflowSchema :: "'f coercions \<Rightarrow> 'f json \<Rightarrow> ('f, 'f WorkflowSchema) result" where
  "validate_WorkflowSchema c = validate_model (\<lambda>kvs.
     ap (ap (ap (ap (ap (ap (ap (ap (ap (ap (ap (ap (Inr (\<lambda>a b d e f g h i j k l m.
        \<lparr>WorkflowSchema.name = a, WorkflowSchema.description = b,
         WorkflowSchema.schema_version = d, WorkflowSchema.authors = e,
         WorkflowSchema.institutions = f, WorkflowSchema.citations = g,
         WorkflowSchema.problem_class = h, WorkflowSchema.container_image = i,
         WorkflowSchema.configuration = j, WorkflowSchema.inputs = k,
         WorkflowSchema.outputs = l, WorkflowSchema.command_line = m\<rparr>))
       (required [''name''] validate_str kvs))
       (required [''description''] validate_str kvs))
       (required [''schema-version'', ''schema_version''] validate_str kvs))
       (with_default [''authors''] [] (validate_list validate_Author) kvs))
       (with_default [''institutions''] [] (validate_list validate_Institution) kvs))
       (with_default [''citations''] [] (validate_list_min 1 validate_Citation) kvs))
       (with_default [''problem-class'', ''problem_class''] None
          (nullable (validate_literal WorkflowSchema_problem_class)) kvs))
       (required [''container-image'', ''container_image''] validate_ContainerImage kvs))
       (with_default [''configuration''] None (nullable (validate_Configuration c)) kvs))
       (required [''inputs''] (validate_list (validate_Parameter c)) kvs))
       (with_default [''outputs''] [] (validate_list (validate_OutputParameter c)) kvs))
       (required [''command-line'', ''command_line''] validate_str kvs))"

text \<open>\<^verbatim>\<open>validate(document)\<close> of the specification is \<^verbatim>\<open>WorkflowSchema.model_validate\<close>.\<close>

definition validate :: "'f coercions \<Rightarrow> 'f json \<Rightarrow> ('f, 'f WorkflowSchema) result" where
  "validate c doc = validate_WorkflowSchema c doc"

section \<open>Serialization\<close>

text \<open>
  \<^verbatim>\<open>model_dump(by_alias=True)\<close>: one key per declared field, under the alias where
  the field has one, in the order of the class; \<^verbatim>\<open>None\<close> is written as null. The
  specification names the alias spelling as the canonical one for output.
\<close>

definition dump_opt :: "('a \<Rightarrow> 'f json) \<Rightarrow> 'a option \<Rightarrow> 'f json" where
  "dump_opt f x = (case x of None \<Rightarrow> JNull | Some y \<Rightarrow> f y)"

definition dump_strs :: "string list \<Rightarrow> 'f json" where
  "dump_strs ss = JList (map JStr ss)"

definition dump_scalar :: "'f scalar \<Rightarrow> 'f json" where
  "dump_scalar x = (case x of VStr s \<Rightarrow> JStr s | VInt i \<Rightarrow> JInt i | VFloat y \<Rightarrow> JFloat y
     | VBool b \<Rightarrow> JBool b)"

definition dump_str_or_list :: "str_or_list \<Rightarrow> 'f json" where
  "dump_str_or_list x = (case x of One s \<Rightarrow> JStr s | Many ss \<Rightarrow> dump_strs ss)"

definition dump_Author :: "Author \<Rightarrow> 'f json" where
  "dump_Author a = JObj [
     (''name'', JStr (Author.name a)),
     (''email'', dump_opt JStr (Author.email a)),
     (''affiliations'', dump_opt dump_strs (Author.affiliations a))]"

definition dump_Institution :: "Institution \<Rightarrow> 'f json" where
  "dump_Institution a = JObj [
     (''id'', JStr (Institution.id a)),
     (''name'', dump_opt JStr (Institution.name a))]"

definition dump_Citation :: "Citation \<Rightarrow> 'f json" where
  "dump_Citation a = JObj [
     (''name'', JStr (Citation.name a)),
     (''doi'', dump_opt JStr (Citation.doi a)),
     (''license'', JStr (Citation.license a)),
     (''description'', dump_opt JStr (Citation.description a))]"

definition dump_ContainerImage :: "ContainerImage \<Rightarrow> 'f json" where
  "dump_ContainerImage a = JObj [
     (''image'', JStr (ContainerImage.image a)),
     (''type'', JStr (ContainerImage.type a)),
     (''platforms'', dump_opt dump_strs (ContainerImage.platforms a))]"

definition dump_CudaRequirements :: "'f CudaRequirements \<Rightarrow> 'f json" where
  "dump_CudaRequirements a = JObj [
     (''device-memory-min'', dump_opt JFloat (CudaRequirements.device_memory_min a)),
     (''cuda-compute-capability'',
        dump_opt dump_str_or_list (CudaRequirements.cuda_compute_capability a))]"

definition dump_Resources :: "'f Resources \<Rightarrow> 'f json" where
  "dump_Resources a = JObj [
     (''networking'', dump_opt JBool (Resources.networking a)),
     (''ram-min'', dump_opt JFloat (Resources.ram_min a)),
     (''cores-min'', dump_opt JFloat (Resources.cores_min a)),
     (''gpu'', dump_opt JBool (Resources.gpu a)),
     (''cuda-requirements'', dump_opt dump_CudaRequirements (Resources.cuda_requirements a)),
     (''cpuAVX'', dump_opt JBool (Resources.cpuAVX a)),
     (''cpuAVX2'', dump_opt JBool (Resources.cpuAVX2 a))]"

definition dump_Configuration :: "'f Configuration \<Rightarrow> 'f json" where
  "dump_Configuration a = JObj [
     (''input_folder'', dump_opt JStr (Configuration.input_folder a)),
     (''output_folder'', dump_opt JStr (Configuration.output_folder a)),
     (''resources'', dump_opt dump_Resources (Configuration.resources a))]"

definition dump_Parameter :: "'f Parameter \<Rightarrow> 'f json" where
  "dump_Parameter a = JObj [
     (''id'', JStr (Parameter.id a)),
     (''type'', JStr (Parameter.type a)),
     (''name'', dump_opt JStr (Parameter.name a)),
     (''description'', dump_opt JStr (Parameter.description a)),
     (''value-key'', dump_opt JStr (Parameter.value_key a)),
     (''command-line-flag'', dump_opt JStr (Parameter.command_line_flag a)),
     (''default-value'', dump_opt dump_scalar (Parameter.default_value a)),
     (''optional'', dump_opt JBool (Parameter.optional a)),
     (''set-by-server'', dump_opt JBool (Parameter.set_by_server a)),
     (''format'', dump_opt JStr (Parameter.format a)),
     (''sub-type'', dump_opt JStr (Parameter.sub_type a))]"

definition dump_OutputParameter :: "'f OutputParameter \<Rightarrow> 'f json" where
  "dump_OutputParameter a = JObj [
     (''id'', JStr (OutputParameter.id a)),
     (''type'', JStr (OutputParameter.type a)),
     (''name'', dump_opt JStr (OutputParameter.name a)),
     (''description'', dump_opt JStr (OutputParameter.description a)),
     (''value-key'', dump_opt JStr (OutputParameter.value_key a)),
     (''command-line-flag'', dump_opt JStr (OutputParameter.command_line_flag a)),
     (''default-value'', dump_opt dump_scalar (OutputParameter.default_value a)),
     (''optional'', dump_opt JBool (OutputParameter.optional a)),
     (''set-by-server'', dump_opt JBool (OutputParameter.set_by_server a))]"

definition dump_fields :: "'f WorkflowSchema \<Rightarrow> (string \<times> 'f json) list" where
  "dump_fields a = [
     (''name'', JStr (WorkflowSchema.name a)),
     (''description'', JStr (WorkflowSchema.description a)),
     (''schema-version'', JStr (WorkflowSchema.schema_version a)),
     (''authors'', JList (map dump_Author (WorkflowSchema.authors a))),
     (''institutions'', JList (map dump_Institution (WorkflowSchema.institutions a))),
     (''citations'', JList (map dump_Citation (WorkflowSchema.citations a))),
     (''problem-class'', dump_opt JStr (WorkflowSchema.problem_class a)),
     (''container-image'', dump_ContainerImage (WorkflowSchema.container_image a)),
     (''configuration'', dump_opt dump_Configuration (WorkflowSchema.configuration a)),
     (''inputs'', JList (map dump_Parameter (WorkflowSchema.inputs a))),
     (''outputs'', JList (map dump_OutputParameter (WorkflowSchema.outputs a))),
     (''command-line'', JStr (WorkflowSchema.command_line a))]"

definition serialize :: "'f WorkflowSchema \<Rightarrow> 'f json" where
  "serialize a = JObj (dump_fields a)"

section \<open>Documents used in the statements\<close>

text \<open>
  The conversion table of strict mode, floats read as real numbers: a concrete
  table for the examples below, none of which has a boolean or float field.
\<close>

definition strict_mode :: "real coercions" where
  "strict_mode = \<lparr>lax_bool = (\<lambda>v. Inl bool_type),
     lax_float = (\<lambda>v. case v of JInt i \<Rightarrow> Inr (of_int i) | _ \<Rightarrow> Inl float_type)\<rparr>"

text \<open>A dictionary without one key.\<close>

definition without :: "string \<Rightarrow> (string \<times> 'v) list \<Rightarrow> (string \<times> 'v) list" where
  "without k kvs = filter (\<lambda>kv. fst kv \<noteq> k) kvs"

text \<open>A dictionary with one key set (\<^verbatim>\<open>d[k] = v\<close> on a copy).\<close>

definition put :: "string \<Rightarrow> 'v \<Rightarrow> (string \<times> 'v) list \<Rightarrow> (string \<times> 'v) list" where
  "put k v kvs = (k, v) # without k kvs"

text \<open>
  The minimal documents: the required fields of each model and nothing else, with
  a list of citations (name, license) and a list of inputs (id, type).
\<close>

definition minimal_Citation :: "string \<times> string \<Rightarrow> 'f json" where
  "minimal_Citation = (\<lambda>(n, l). JObj [(''name'', JStr n), (''license'', JStr l)])"

definition minimal_Parameter :: "string \<times> string \<Rightarrow> 'f json" where
  "minimal_Parameter = (\<lambda>(i, t). JObj [(''id'', JStr i), (''type'', JStr t)])"

definition minimal_fields :: "string \<Rightarrow> string \<Rightarrow> string \<Rightarrow> (string \<times> string) list \<Rightarrow> string \<Rightarrow> string \<Rightarrow> (string \<times> string) list \<Rightarrow> string \<Rightarrow> (string \<times> 'f json) list" where
  "minimal_fields n d sv cits img ty ins cl = [
     (''name'', JStr n), (''description'', JStr d), (''schema-version'', JStr sv),
     (''citations'', JList (map minimal_Citation cits)),
     (''container-image'', JObj [(''image'', JStr img), (''type'', JStr ty)]),
     (''inputs'', JList (map minimal_Parameter ins)),
     (''command-line'', JStr cl)]"

definition minimal_document :: "string \<Rightarrow> string \<Rightarrow> string \<Rightarrow> (string \<times> string) list \<Rightarrow> string \<Rightarrow> string \<Rightarrow> (string \<times> string) list \<Rightarrow> string \<Rightarrow> 'f json" where
  "minimal_document n d sv cits img ty ins cl = JObj (minimal_fields n d sv cits img ty ins cl)"

definition example_fields :: "(string \<times> real json) list" where
  "example_fields = minimal_fields ''NucleiTracking-ImageJ'' ''Tracks nuclei'' ''1.0.0''
     [(''ImageJ'', ''BSD-2-Clause'')] ''nucleitracking-imagej'' ''oci''
     [(''threshold'', ''float'')] ''python run.py THRESHOLD''"

definition example :: "real json" where
  "example = JObj example_fields"

text \<open>The example without its \<^verbatim>\<open>citations\<close> key, and with an empty list there.\<close>

definition example_no_citations :: "real json" where
  "example_no_citations = JObj (without ''citations'' example_fields)"

definition example_empty_citations :: "real json" where
  "example_empty_citations = JObj (put ''citations'' (JList []) example_fields)"

text \<open>The record of the example.\<close>

definition example_record :: "real WorkflowSchema" where
  "example_record =
    \<lparr>WorkflowSchema.name = ''NucleiTracking-ImageJ'',
     WorkflowSchema.description = ''Tracks nuclei'',
     WorkflowSchema.schema_version = ''1.0.0'', WorkflowSchema.authors = [],
     WorkflowSchema.institutions = [],
     WorkflowSchema.citations = [\<lparr>Citation.name = ''ImageJ'', Citation.doi = None,
        Citation.license = ''BSD-2-Clause'', Citation.description = None\<rparr>],
     WorkflowSchema.problem_class = None,
     WorkflowSchema.container_image = \<lparr>ContainerImage.image = ''nucleitracking-imagej'',
        ContainerImage.type = ''oci'', ContainerImage.platforms = None\<rparr>,
     WorkflowSchema.configuration = None,
     WorkflowSchema.inputs = [\<lparr>Parameter.id = ''threshold'', Parameter.type = ''float'',
        Parameter.name = None, Parameter.description = None, Parameter.value_key = None,
        Parameter.command_line_flag = None, Parameter.default_value = None,
        Parameter.optional = None, Parameter.set_by_server = None,
        Parameter.format = None, Parameter.sub_type = None\<rparr>],
     WorkflowSchema.outputs = [], WorkflowSchema.command_line = ''python run.py THRESHOLD''\<rparr>"






text \<open>An author affiliated to \<^verbatim>\<open>inst-x\<close>, the only institution being \<^verbatim>\<open>inst-y\<close>.\<close>

definition example_affiliation :: "real json" where
  "example_affiliation = JObj (
     put ''authors'' (JList [JObj [(''name'', JStr ''A. Author''),
                                   (''affiliations'', JList [JStr ''inst-x''])]])
    (put ''institutions'' (JList [JObj [(''id'', JStr ''inst-y'')]]) example_fields))"

text \<open>The example with one author who names no affiliation.\<close>

definition example_author_fields :: "(string \<times> real json) list" where
  "example_author_fields =
     put ''authors'' (JList [JObj [(''name'', JStr ''A. Author'')]]) example_fields"

text \<open>Two inputs with the id \<^verbatim>\<open>threshold\<close>.\<close>

definition example_duplicate_ids :: "real json" where
  "example_duplicate_ids = JObj (put ''inputs''
     (JList [JObj [(''id'', JStr ''threshold''), (''type'', JStr ''float'')],
             JObj [(''id'', JStr ''threshold''), (''type'', JStr ''integer'')]])
     example_fields)"

text \<open>The example with a key that the schema does not declare.\<close>

definition example_extra_fields :: "(string \<times> real json) list" where
  "example_extra_fields = put ''maintainer'' (JStr ''A. Author'') example_fields"

text \<open>
  One input, its substitution key given under the alias \<^verbatim>\<open>value-key\<close> and under
  the name \<^verbatim>\<open>value_key\<close>.
\<close>

definition example_value_key :: "string \<Rightarrow> real json" where
  "example_value_key k = JObj (put ''inputs''
     (JList [JObj [(''id'', JStr ''threshold''), (''type'', JStr ''float''),
                   (k, JStr ''[THRESHOLD]'')]])
     example_fields)"

text \<open>The example with its three root aliases written as names.\<close>

definition example_by_name :: "real json" where
  "example_by_name = JObj [
     (''name'', JStr ''NucleiTracking-ImageJ''), (''description'', JStr ''Tracks nuclei''),
     (''schema_version'', JStr ''1.0.0''),
     (''citations'', JList [minimal_Citation (''ImageJ'', ''BSD-2-Clause'')]),
     (''container_image'', JObj [(''image'', JStr ''nucleitracking-imagej''),
                                 (''type'', JStr ''oci'')]),
     (''inputs'', JList [minimal_Parameter (''threshold'', ''float'')]),
     (''command_line'', JStr ''python run.py THRESHOLD'')]"

text \<open>A value outside the literals in each of the four enumerated fields.\<close>

definition example_enums :: "(string \<times> real json) list" where
  "example_enums =
     put ''container-image'' (JObj [(''image'', JStr ''nucleitracking-imagej''),
                                    (''type'', JStr ''docker'')])
    (put ''inputs'' (JList [JObj [(''id'', JStr ''threshold''), (''type'', JStr ''double'')]])
    (put ''outputs'' (JList [JObj [(''id'', JStr ''count''), (''type'', JStr ''integer'')]])
    (put ''problem-class'' (JStr ''object-painting'') example_fields)))"

section \<open>Properties of the framework\<close>

lemma ap_Inr_iff: "ap f x = Inr y \<longleftrightarrow> (\<exists>g a. f = Inr g \<and> x = Inr a \<and> y = g a)"
  by (cases f; cases x) auto

lemma errors_ap: "errors (ap f x) = errors f @ errors x"
  by (cases f; cases x) (simp_all add: errors_def)

lemma errors_at_loc: "errors (at_loc k r) = map (\<lambda>e. e\<lparr>loc := k # loc e\<rparr>) (errors r)"
  by (cases r) (simp_all add: errors_def at_loc_def)

lemma at_loc_Inr_iff: "at_loc k r = Inr x \<longleftrightarrow> r = Inr x"
  by (cases r) (simp_all add: at_loc_def)

lemma in_errorsD: "e \<in> set (errors r) \<Longrightarrow> \<exists>es. r = Inl es \<and> e \<in> set es"
  by (cases r) (simp_all add: errors_def)

lemma map_of_without: "map_of (without k kvs) k' = (if k' = k then None else map_of kvs k')"
  by (induction kvs) (auto simp: without_def)

lemma map_of_put: "map_of (put k v kvs) k' = (if k' = k then Some v else map_of kvs k')"
  by (simp add: put_def map_of_without)

lemma lookup_unchanged:
  "\<forall>k \<in> set keys. map_of kvs' k = map_of kvs k \<Longrightarrow> lookup keys kvs' = lookup keys kvs"
  by (induction keys) (auto split: option.splits)

lemma required_unchanged:
  "\<forall>k \<in> set keys. map_of kvs' k = map_of kvs k \<Longrightarrow>
   required keys val kvs' = Inr x \<longleftrightarrow> required keys val kvs = Inr x"
  by (simp add: required_def lookup_unchanged [of keys kvs' kvs] split: option.splits)

lemma with_default_unchanged:
  "\<forall>k \<in> set keys. map_of kvs' k = map_of kvs k \<Longrightarrow>
   with_default keys d val kvs' = with_default keys d val kvs"
  by (simp add: with_default_def lookup_unchanged [of keys kvs' kvs])

lemma errors_Inr: "errors (Inr x) = []" by (simp add: errors_def)
lemma errors_Inl: "errors (Inl es) = es" by (simp add: errors_def)
lemma errors_err: "errors (err k v) = [\<lparr>loc = [], kind = k, input = v\<rparr>]" by (simp add: errors_def err_def)

lemma in_errors_isl: "e \<in> set (errors r) \<Longrightarrow> isl r"
  by (cases r) (simp_all add: errors_def)

lemma errors_validate_model: "errors (validate_model flds (JObj kvs)) = errors (flds kvs)"
  by (simp add: validate_model_def)

lemma errors_required:
  "lookup keys kvs = Some (k, v) \<Longrightarrow>
   errors (required keys val kvs) = map (\<lambda>e. e\<lparr>loc := LKey k # loc e\<rparr>) (errors (val v))"
  by (simp add: required_def errors_at_loc)

lemma errors_with_default:
  "lookup keys kvs = Some (k, v) \<Longrightarrow>
   errors (with_default keys d val kvs) = map (\<lambda>e. e\<lparr>loc := LKey k # loc e\<rparr>) (errors (val v))"
  by (simp add: with_default_def errors_at_loc)

lemma lookup_single: "map_of kvs k = Some v \<Longrightarrow> lookup [k] kvs = Some (k, v)"
  by simp

lemma validate_literal_outside:
  "v \<notin> JStr ` set allowed \<Longrightarrow> validate_literal allowed v = err (literal_error allowed) v"
  by (cases v) (auto simp: validate_literal_def)

lemma errors_nullable: "v \<noteq> JNull \<Longrightarrow> errors (nullable val v) = errors (val v)"
  by (cases v; cases "val v") (simp_all add: nullable_def errors_def)

lemma errors_validate_items:
  "i < length xs \<Longrightarrow> e \<in> set (errors (val (xs ! i))) \<Longrightarrow>
   e\<lparr>loc := LIdx (n + i) # loc e\<rparr> \<in> set (errors (validate_items val n xs))"
proof (induction xs arbitrary: i n)
  case Nil
  then show ?case by simp
next
  case (Cons x xs)
  show ?case
  proof (cases i)
    case 0
    with Cons.prems show ?thesis
      by (simp add: errors_ap errors_at_loc errors_Inr)
  next
    case (Suc j)
    with Cons.prems have "e\<lparr>loc := LIdx (Suc n + j) # loc e\<rparr> \<in> set (errors (validate_items val (Suc n) xs))"
      by (intro Cons.IH) simp_all
    with Suc show ?thesis
      by (simp add: errors_ap)
  qed
qed

lemma errors_validate_list:
  "i < length xs \<Longrightarrow> e \<in> set (errors (val (xs ! i))) \<Longrightarrow>
   e\<lparr>loc := LIdx i # loc e\<rparr> \<in> set (errors (validate_list val (JList xs)))"
  using errors_validate_items [of i xs e val 0] by (simp add: validate_list_def)

lemma errors_validate:
  "errors (validate c (JObj kvs)) =
     errors (required [''name''] validate_str kvs) @
     errors (required [''description''] validate_str kvs) @
     errors (required [''schema-version'', ''schema_version''] validate_str kvs) @
     errors (with_default [''authors''] [] (validate_list validate_Author) kvs) @
     errors (with_default [''institutions''] [] (validate_list validate_Institution) kvs) @
     errors (with_default [''citations''] [] (validate_list_min 1 validate_Citation) kvs) @
     errors (with_default [''problem-class'', ''problem_class''] None
          (nullable (validate_literal WorkflowSchema_problem_class)) kvs) @
     errors (required [''container-image'', ''container_image''] validate_ContainerImage kvs) @
     errors (with_default [''configuration''] None (nullable (validate_Configuration c)) kvs) @
     errors (required [''inputs''] (validate_list (validate_Parameter c)) kvs) @
     errors (with_default [''outputs''] [] (validate_list (validate_OutputParameter c)) kvs) @
     errors (required [''command-line'', ''command_line''] validate_str kvs)"
  by (simp add: validate_def validate_WorkflowSchema_def validate_model_def errors_ap errors_Inr)

lemma validate_Inr_iff:
  "validate c (JObj kvs) = Inr w \<longleftrightarrow>
     required [''name''] validate_str kvs = Inr (WorkflowSchema.name w) \<and>
     required [''description''] validate_str kvs = Inr (WorkflowSchema.description w) \<and>
     required [''schema-version'', ''schema_version''] validate_str kvs =
       Inr (WorkflowSchema.schema_version w) \<and>
     with_default [''authors''] [] (validate_list validate_Author) kvs =
       Inr (WorkflowSchema.authors w) \<and>
     with_default [''institutions''] [] (validate_list validate_Institution) kvs =
       Inr (WorkflowSchema.institutions w) \<and>
     with_default [''citations''] [] (validate_list_min 1 validate_Citation) kvs =
       Inr (WorkflowSchema.citations w) \<and>
     with_default [''problem-class'', ''problem_class''] None
          (nullable (validate_literal WorkflowSchema_problem_class)) kvs =
       Inr (WorkflowSchema.problem_class w) \<and>
     required [''container-image'', ''container_image''] validate_ContainerImage kvs =
       Inr (WorkflowSchema.container_image w) \<and>
     with_default [''configuration''] None (nullable (validate_Configuration c)) kvs =
       Inr (WorkflowSchema.configuration w) \<and>
     required [''inputs''] (validate_list (validate_Parameter c)) kvs =
       Inr (WorkflowSchema.inputs w) \<and>
     with_default [''outputs''] [] (validate_list (validate_OutputParameter c)) kvs =
       Inr (WorkflowSchema.outputs w) \<and>
     required [''command-line'', ''command_line''] validate_str kvs =
       Inr (WorkflowSchema.command_line w)"
  by (cases w) (auto simp: validate_def validate_WorkflowSchema_def validate_model_def ap_Inr_iff)


lemma required_put_other:
  "k \<notin> set keys \<Longrightarrow> required keys val (put k v kvs) = Inr x \<longleftrightarrow> required keys val kvs = Inr x"
  by (rule required_unchanged) (auto simp: map_of_put)

lemma required_without_other:
  "k \<notin> set keys \<Longrightarrow> required keys val (without k kvs) = Inr x \<longleftrightarrow> required keys val kvs = Inr x"
  by (rule required_unchanged) (auto simp: map_of_without)

lemma with_default_put_other:
  "k \<notin> set keys \<Longrightarrow> with_default keys d val (put k v kvs) = with_default keys d val kvs"
  by (rule with_default_unchanged) (auto simp: map_of_put)

lemma with_default_without_other:
  "k \<notin> set keys \<Longrightarrow> with_default keys d val (without k kvs) = with_default keys d val kvs"
  by (rule with_default_unchanged) (auto simp: map_of_without)

lemma with_default_put: "with_default [k] d val (put k v kvs) = at_loc (LKey k) (val v)"
  by (simp add: with_default_def map_of_put)


lemma required_put: "required [k] val (put k v kvs) = at_loc (LKey k) (val v)"
  by (simp add: required_def map_of_put)

lemmas put_other = required_put_other required_without_other with_default_put_other
  with_default_without_other





lemma validate_put_inputs:
  "validate c (JObj kvs) = Inr w \<Longrightarrow> validate_list (validate_Parameter c) v = Inr ps \<Longrightarrow>
   validate c (JObj (put ''inputs'' v kvs)) = Inr (w\<lparr>WorkflowSchema.inputs := ps\<rparr>)"
  by (simp add: validate_Inr_iff put_other required_put at_loc_def)

lemma validate_put_institutions:
  "validate c (JObj kvs) = Inr w \<Longrightarrow> validate_list validate_Institution v = Inr is \<Longrightarrow>
   validate c (JObj (put ''institutions'' v kvs)) = Inr (w\<lparr>WorkflowSchema.institutions := is\<rparr>)"
  by (simp add: validate_Inr_iff put_other with_default_put at_loc_def)

lemma validate_items_Inr_iff:
  "validate_items val n xs = Inr ys \<longleftrightarrow> list_all2 (\<lambda>x y. val x = Inr y) xs ys"
  by (induction xs arbitrary: n ys)
     (auto simp: ap_Inr_iff at_loc_Inr_iff list_all2_Cons1)

lemma validate_list_Inr_iff:
  "validate_list val (JList xs) = Inr ys \<longleftrightarrow> list_all2 (\<lambda>x y. val x = Inr y) xs ys"
  by (simp add: validate_list_def validate_items_Inr_iff)

lemmas model_defs = validate_model_def required_def with_default_def at_loc_def err_def
  validate_str_def validate_literal_def nullable_def validate_list_def validate_list_min_def

lemmas example_defs = example_def example_fields_def minimal_fields_def minimal_document_def
  minimal_Citation_def minimal_Parameter_def put_def without_def

section \<open>Minimal documents (C1)\<close>

lemma validate_minimal_Citation:
  "validate_Citation (minimal_Citation (n, l)) =
   Inr \<lparr>Citation.name = n, Citation.doi = None, Citation.license = l,
        Citation.description = None\<rparr>"
  by (simp add: minimal_Citation_def validate_Citation_def model_defs)

lemma items_minimal_Citation:
  "validate_items validate_Citation i (map minimal_Citation cits) =
   (Inr (map (\<lambda>(n, l). \<lparr>Citation.name = n, Citation.doi = None, Citation.license = l,
        Citation.description = None\<rparr>) cits) :: ('f, Citation list) result)"
  by (induction cits arbitrary: i) (auto simp add: validate_minimal_Citation at_loc_def)

lemma validate_minimal_Parameter:
  "t \<in> set Parameter_type \<Longrightarrow> validate_Parameter c (minimal_Parameter (i, t)) =
   Inr \<lparr>Parameter.id = i, Parameter.type = t, Parameter.name = None,
        Parameter.description = None, Parameter.value_key = None,
        Parameter.command_line_flag = None, Parameter.default_value = None,
        Parameter.optional = None, Parameter.set_by_server = None, Parameter.format = None,
        Parameter.sub_type = None\<rparr>"
  by (simp add: minimal_Parameter_def validate_Parameter_def model_defs)

lemma items_minimal_Parameter:
  "\<forall>p \<in> set ins. snd p \<in> set Parameter_type \<Longrightarrow>
   validate_items (validate_Parameter c) i (map minimal_Parameter ins) =
   Inr (map (\<lambda>(i, t). \<lparr>Parameter.id = i, Parameter.type = t, Parameter.name = None,
        Parameter.description = None, Parameter.value_key = None,
        Parameter.command_line_flag = None, Parameter.default_value = None,
        Parameter.optional = None, Parameter.set_by_server = None, Parameter.format = None,
        Parameter.sub_type = None\<rparr>) ins)"
  by (induction ins arbitrary: i) (auto simp add: validate_minimal_Parameter at_loc_def)

text \<open>
  C1, as the code has it: a minimal document with at least one citation and with
  enumerated values from the literals validates, and in the record every optional
  field that the document does not give is \<open>None\<close>; \<open>authors\<close>, \<open>institutions\<close>
  and \<open>outputs\<close> are empty lists. Nothing is filled in from the field
  descriptions.
\<close>

theorem minimal_document_record:
  assumes "cits \<noteq> []" and "ty \<in> set ContainerImage_type"
    and "\<forall>p \<in> set ins. snd p \<in> set Parameter_type"
  shows "validate c (minimal_document n d sv cits img ty ins cl) =
    Inr \<lparr>WorkflowSchema.name = n, WorkflowSchema.description = d,
         WorkflowSchema.schema_version = sv, WorkflowSchema.authors = [],
         WorkflowSchema.institutions = [],
         WorkflowSchema.citations = map (\<lambda>(n, l). \<lparr>Citation.name = n, Citation.doi = None,
            Citation.license = l, Citation.description = None\<rparr>) cits,
         WorkflowSchema.problem_class = None,
         WorkflowSchema.container_image = \<lparr>ContainerImage.image = img,
            ContainerImage.type = ty, ContainerImage.platforms = None\<rparr>,
         WorkflowSchema.configuration = None,
         WorkflowSchema.inputs = map (\<lambda>(i, t). \<lparr>Parameter.id = i, Parameter.type = t,
            Parameter.name = None, Parameter.description = None, Parameter.value_key = None,
            Parameter.command_line_flag = None, Parameter.default_value = None,
            Parameter.optional = None, Parameter.set_by_server = None,
            Parameter.format = None, Parameter.sub_type = None\<rparr>) ins,
         WorkflowSchema.outputs = [], WorkflowSchema.command_line = cl\<rparr>"
  using assms
  by (simp add: validate_def validate_WorkflowSchema_def minimal_document_def
      minimal_fields_def model_defs items_minimal_Citation items_minimal_Parameter
      validate_ContainerImage_def)

theorem minimal_document_record_witness:
  "[(''ImageJ'', ''BSD-2-Clause'')] \<noteq> [] \<and> ''oci'' \<in> set ContainerImage_type \<and>
   ''float'' \<in> set Parameter_type \<and>
   validate strict_mode example =
    Inr \<lparr>WorkflowSchema.name = ''NucleiTracking-ImageJ'',
         WorkflowSchema.description = ''Tracks nuclei'',
         WorkflowSchema.schema_version = ''1.0.0'', WorkflowSchema.authors = [],
         WorkflowSchema.institutions = [],
         WorkflowSchema.citations = [\<lparr>Citation.name = ''ImageJ'', Citation.doi = None,
            Citation.license = ''BSD-2-Clause'', Citation.description = None\<rparr>],
         WorkflowSchema.problem_class = None,
         WorkflowSchema.container_image = \<lparr>ContainerImage.image = ''nucleitracking-imagej'',
            ContainerImage.type = ''oci'', ContainerImage.platforms = None\<rparr>,
         WorkflowSchema.configuration = None,
         WorkflowSchema.inputs = [\<lparr>Parameter.id = ''threshold'', Parameter.type = ''float'',
            Parameter.name = None, Parameter.description = None, Parameter.value_key = None,
            Parameter.command_line_flag = None, Parameter.default_value = None,
            Parameter.optional = None, Parameter.set_by_server = None,
            Parameter.format = None, Parameter.sub_type = None\<rparr>],
         WorkflowSchema.outputs = [], WorkflowSchema.command_line = ''python run.py THRESHOLD''\<rparr>"
  using minimal_document_record [of "[(''ImageJ'', ''BSD-2-Clause'')]" "''oci''"
      "[(''threshold'', ''float'')]" strict_mode "''NucleiTracking-ImageJ''" "''Tracks nuclei''"
      "''1.0.0''" "''nucleitracking-imagej''" "''python run.py THRESHOLD''"]
  by (simp add: example_def example_fields_def minimal_document_def ContainerImage_type_def
      Parameter_type_def)

text \<open>
  C1 as stated fails on the example: the document validates, and its one input has
  no name, no value key, no command line flag, no description and no
  \<open>optional\<close> flag in the record, where the claim has \<open>threshold\<close>,
  \<open>[THRESHOLD]\<close>, \<open>--threshold\<close>, the empty string and false; there is no
  configuration, so no \<open>/inputs\<close> folder either.
\<close>

theorem defaults_not_applied:
  "\<not> isl (validate strict_mode example) \<and>
   map Parameter.name (inputs (projr (validate strict_mode example))) = [None] \<and>
   map Parameter.value_key (inputs (projr (validate strict_mode example))) = [None] \<and>
   map Parameter.command_line_flag (inputs (projr (validate strict_mode example))) = [None] \<and>
   map Parameter.description (inputs (projr (validate strict_mode example))) = [None] \<and>
   map Parameter.optional (inputs (projr (validate strict_mode example))) = [None] \<and>
   configuration (projr (validate strict_mode example)) = None"
  by (simp add: validate_def validate_WorkflowSchema_def validate_Parameter_def
      validate_Citation_def validate_ContainerImage_def model_defs example_defs
      ContainerImage_type_def Parameter_type_def)

section \<open>Enumerated fields (C9)\<close>

lemma type_error_Parameter:
  "map_of pkvs ''type'' = Some v \<Longrightarrow> v \<notin> JStr ` set Parameter_type \<Longrightarrow>
   \<lparr>loc = [LKey ''type''], kind = literal_error Parameter_type, input = v\<rparr>
     \<in> set (errors (validate_Parameter c (JObj pkvs)))"
  by (simp add: validate_Parameter_def validate_model_def errors_ap errors_Inr
      errors_required [of "[''type'']" pkvs "''type''" v] validate_literal_outside errors_err)


lemma type_error_OutputParameter:
  "map_of pkvs ''type'' = Some v \<Longrightarrow> v \<notin> JStr ` set OutputParameter_type \<Longrightarrow>
   \<lparr>loc = [LKey ''type''], kind = literal_error OutputParameter_type, input = v\<rparr>
     \<in> set (errors (validate_OutputParameter c (JObj pkvs)))"
  by (simp add: validate_OutputParameter_def validate_model_def errors_ap errors_Inr
      errors_required [of "[''type'']" pkvs "''type''" v] validate_literal_outside errors_err)

lemma type_error_ContainerImage:
  "map_of ckvs ''type'' = Some v \<Longrightarrow> v \<notin> JStr ` set ContainerImage_type \<Longrightarrow>
   \<lparr>loc = [LKey ''type''], kind = literal_error ContainerImage_type, input = v\<rparr>
     \<in> set (errors (validate_ContainerImage (JObj ckvs)))"
  by (simp add: validate_ContainerImage_def validate_model_def errors_ap errors_Inr
      errors_required [of "[''type'']" ckvs "''type''" v] validate_literal_outside errors_err)

lemma enum_container_image:
  assumes "lookup [''container-image'', ''container_image''] kvs = Some (k, JObj ckvs)"
    and "map_of ckvs ''type'' = Some v" and "v \<notin> JStr ` set ContainerImage_type"
  shows "\<lparr>loc = [LKey k, LKey ''type''], kind = literal_error ContainerImage_type, input = v\<rparr>
     \<in> set (errors (validate c (JObj kvs)))"
proof -
  have "\<lparr>loc = [LKey ''type''], kind = literal_error ContainerImage_type, input = v\<rparr>
     \<in> set (errors (validate_ContainerImage (JObj ckvs)))"
    using assms(2,3) by (rule type_error_ContainerImage)
  then have "\<lparr>loc = [LKey ''type''], kind = literal_error ContainerImage_type, input = v\<rparr>
      \<lparr>loc := LKey k # [LKey ''type'']\<rparr>
     \<in> set (errors (required [''container-image'', ''container_image''] validate_ContainerImage kvs))"
    unfolding errors_required [OF assms(1)] by force
  then show ?thesis
    by (simp add: errors_validate)
qed

lemma enum_inputs:
  assumes "map_of kvs ''inputs'' = Some (JList ps)" and "i < length ps" and "ps ! i = JObj pkvs"
    and "map_of pkvs ''type'' = Some v" and "v \<notin> JStr ` set Parameter_type"
  shows "\<lparr>loc = [LKey ''inputs'', LIdx i, LKey ''type''], kind = literal_error Parameter_type,
      input = v\<rparr> \<in> set (errors (validate c (JObj kvs)))"
proof -
  have "\<lparr>loc = [LKey ''type''], kind = literal_error Parameter_type, input = v\<rparr>
     \<in> set (errors (validate_Parameter c (ps ! i)))"
    unfolding assms(3) using assms(4,5) by (rule type_error_Parameter)
  with assms(2) have "\<lparr>loc = [LKey ''type''], kind = literal_error Parameter_type, input = v\<rparr>
      \<lparr>loc := LIdx i # [LKey ''type'']\<rparr>
     \<in> set (errors (validate_list (validate_Parameter c) (JList ps)))"
    using errors_validate_list [of i ps _ "validate_Parameter c"] by fastforce
  then have "\<lparr>loc = [LIdx i, LKey ''type''], kind = literal_error Parameter_type, input = v\<rparr>
      \<lparr>loc := LKey ''inputs'' # [LIdx i, LKey ''type'']\<rparr>
     \<in> set (errors (required [''inputs''] (validate_list (validate_Parameter c)) kvs))"
    unfolding errors_required [OF lookup_single [OF assms(1)]] by force
  then show ?thesis
    by (simp add: errors_validate)
qed

lemma enum_outputs:
  assumes "map_of kvs ''outputs'' = Some (JList ps)" and "i < length ps" and "ps ! i = JObj pkvs"
    and "map_of pkvs ''type'' = Some v" and "v \<notin> JStr ` set OutputParameter_type"
  shows "\<lparr>loc = [LKey ''outputs'', LIdx i, LKey ''type''],
      kind = literal_error OutputParameter_type, input = v\<rparr>
     \<in> set (errors (validate c (JObj kvs)))"
proof -
  have "\<lparr>loc = [LKey ''type''], kind = literal_error OutputParameter_type, input = v\<rparr>
     \<in> set (errors (validate_OutputParameter c (ps ! i)))"
    unfolding assms(3) using assms(4,5) by (rule type_error_OutputParameter)
  with assms(2) have "\<lparr>loc = [LKey ''type''], kind = literal_error OutputParameter_type, input = v\<rparr>
      \<lparr>loc := LIdx i # [LKey ''type'']\<rparr>
     \<in> set (errors (validate_list (validate_OutputParameter c) (JList ps)))"
    using errors_validate_list [of i ps _ "validate_OutputParameter c"] by fastforce
  then have "\<lparr>loc = [LIdx i, LKey ''type''], kind = literal_error OutputParameter_type, input = v\<rparr>
      \<lparr>loc := LKey ''outputs'' # [LIdx i, LKey ''type'']\<rparr>
     \<in> set (errors (with_default [''outputs''] [] (validate_list (validate_OutputParameter c)) kvs))"
    unfolding errors_with_default [OF lookup_single [OF assms(1)]] by force
  then show ?thesis
    by (simp add: errors_validate)
qed

lemma enum_problem_class:
  assumes "lookup [''problem-class'', ''problem_class''] kvs = Some (k, v)"
    and "v \<noteq> JNull" and "v \<notin> JStr ` set WorkflowSchema_problem_class"
  shows "\<lparr>loc = [LKey k], kind = literal_error WorkflowSchema_problem_class, input = v\<rparr>
     \<in> set (errors (validate c (JObj kvs)))"
proof -
  have "errors (with_default [''problem-class'', ''problem_class''] None
          (nullable (validate_literal WorkflowSchema_problem_class)) kvs) =
        [\<lparr>loc = [LKey k], kind = literal_error WorkflowSchema_problem_class, input = v\<rparr>]"
    using assms(2,3)
    by (simp add: errors_with_default [OF assms(1)] errors_nullable validate_literal_outside
        errors_err)
  then show ?thesis
    by (simp add: errors_validate)
qed

text \<open>
  C9: a value outside the literals of an enumerated field makes validation fail, and
  the errors returned hold a \<open>literal_error\<close> (InvalidEnumValue) with the path of
  the field, the allowed values and the offending value: for the type of the
  container image, the type of the \<open>i\<close>-th input, the type of the \<open>j\<close>-th output
  and the problem class when it is given (not null). The two root fields are found
  under their alias or their name, and the path has the key that was found.
\<close>

theorem enum_fields_checked:
  "(lookup [''container-image'', ''container_image''] kvs = Some (k, JObj ckvs) \<and>
    map_of ckvs ''type'' = Some v \<and> v \<notin> JStr ` set ContainerImage_type \<longrightarrow>
      isl (validate c (JObj kvs)) \<and>
      \<lparr>loc = [LKey k, LKey ''type''], kind = literal_error ContainerImage_type, input = v\<rparr>
        \<in> set (errors (validate c (JObj kvs)))) \<and>
   (map_of kvs ''inputs'' = Some (JList ps) \<and> i < length ps \<and> ps ! i = JObj pkvs \<and>
    map_of pkvs ''type'' = Some t \<and> t \<notin> JStr ` set Parameter_type \<longrightarrow>
      isl (validate c (JObj kvs)) \<and>
      \<lparr>loc = [LKey ''inputs'', LIdx i, LKey ''type''], kind = literal_error Parameter_type,
        input = t\<rparr> \<in> set (errors (validate c (JObj kvs)))) \<and>
   (map_of kvs ''outputs'' = Some (JList os) \<and> j < length os \<and> os ! j = JObj okvs \<and>
    map_of okvs ''type'' = Some u \<and> u \<notin> JStr ` set OutputParameter_type \<longrightarrow>
      isl (validate c (JObj kvs)) \<and>
      \<lparr>loc = [LKey ''outputs'', LIdx j, LKey ''type''],
        kind = literal_error OutputParameter_type, input = u\<rparr>
        \<in> set (errors (validate c (JObj kvs)))) \<and>
   (lookup [''problem-class'', ''problem_class''] kvs = Some (k', pc) \<and> pc \<noteq> JNull \<and>
    pc \<notin> JStr ` set WorkflowSchema_problem_class \<longrightarrow>
      isl (validate c (JObj kvs)) \<and>
      \<lparr>loc = [LKey k'], kind = literal_error WorkflowSchema_problem_class, input = pc\<rparr>
        \<in> set (errors (validate c (JObj kvs))))"
  using enum_container_image [of kvs k ckvs v c] enum_inputs [of kvs ps i pkvs t c]
    enum_outputs [of kvs os j okvs u c] enum_problem_class [of kvs k' pc c]
    in_errors_isl [of _ "validate c (JObj kvs)"]
  by blast

theorem enum_fields_checked_witness:
  "lookup [''container-image'', ''container_image''] example_enums =
     Some (''container-image'',
       JObj [(''image'', JStr ''nucleitracking-imagej''), (''type'', JStr ''docker'')]) \<and>
   map_of [(''image'', JStr ''nucleitracking-imagej''), (''type'', JStr ''docker'')] ''type'' =
     Some (JStr ''docker'') \<and>
   JStr ''docker'' \<notin> JStr ` set ContainerImage_type \<and>
   map_of example_enums ''inputs'' =
     Some (JList [JObj [(''id'', JStr ''threshold''), (''type'', JStr ''double'')]]) \<and>
   JStr ''double'' \<notin> JStr ` set Parameter_type \<and>
   map_of example_enums ''outputs'' =
     Some (JList [JObj [(''id'', JStr ''count''), (''type'', JStr ''integer'')]]) \<and>
   JStr ''integer'' \<notin> JStr ` set OutputParameter_type \<and>
   lookup [''problem-class'', ''problem_class''] example_enums =
     Some (''problem-class'', JStr ''object-painting'') \<and>
   JStr ''object-painting'' \<notin> JStr ` set WorkflowSchema_problem_class \<and>
   isl (validate strict_mode (JObj example_enums)) \<and>
   \<lparr>loc = [LKey ''container-image'', LKey ''type''],
     kind = literal_error ContainerImage_type, input = JStr ''docker''\<rparr>
     \<in> set (errors (validate strict_mode (JObj example_enums))) \<and>
   \<lparr>loc = [LKey ''inputs'', LIdx 0, LKey ''type''], kind = literal_error Parameter_type,
     input = JStr ''double''\<rparr> \<in> set (errors (validate strict_mode (JObj example_enums))) \<and>
   \<lparr>loc = [LKey ''outputs'', LIdx 0, LKey ''type''],
     kind = literal_error OutputParameter_type, input = JStr ''integer''\<rparr>
     \<in> set (errors (validate strict_mode (JObj example_enums))) \<and>
   \<lparr>loc = [LKey ''problem-class''], kind = literal_error WorkflowSchema_problem_class,
     input = JStr ''object-painting''\<rparr>
     \<in> set (errors (validate strict_mode (JObj example_enums)))"
  using enum_fields_checked [of example_enums "''container-image''"
      "[(''image'', JStr ''nucleitracking-imagej''), (''type'', JStr ''docker'')]"
      "JStr ''docker''" strict_mode
      "[JObj [(''id'', JStr ''threshold''), (''type'', JStr ''double'')]]" 0
      "[(''id'', JStr ''threshold''), (''type'', JStr ''double'')]" "JStr ''double''"
      "[JObj [(''id'', JStr ''count''), (''type'', JStr ''integer'')]]" 0
      "[(''id'', JStr ''count''), (''type'', JStr ''integer'')]" "JStr ''integer''"
      "''problem-class''" "JStr ''object-painting''"]
  by (simp add: example_enums_def example_fields_def minimal_fields_def put_def without_def
      ContainerImage_type_def Parameter_type_def OutputParameter_type_def
      WorkflowSchema_problem_class_def)

section \<open>Type-specific fields of a parameter (C3, C4, C10)\<close>

lemma validate_inputs:
  "validate c (JObj kvs) = Inr w \<Longrightarrow> map_of kvs ''inputs'' = Some v \<Longrightarrow>
   validate_list (validate_Parameter c) v = Inr (WorkflowSchema.inputs w)"
  by (simp add: validate_Inr_iff required_def at_loc_Inr_iff)

lemma list_all2_replace:
  assumes "list_all2 P (pre @ x # post) ys" and "P x' y'"
  shows "list_all2 P (pre @ x' # post) (ys[length pre := y'])"
proof -
  from assms(1) obtain us y vs where ys: "ys = us @ y # vs" and us: "list_all2 P pre us"
    and vs: "list_all2 P post vs"
    by (auto simp: list_all2_append1 list_all2_Cons1)
  from us have "length us = length pre" by (simp add: list_all2_lengthD)
  then have "ys[length pre := y'] = us @ y' # vs"
    using list_update_length [of us y vs y'] by (simp add: ys)
  with us vs assms(2) show ?thesis
    by (simp add: list_all2_appendI)
qed

lemma list_all2_middle:
  assumes "list_all2 P (pre @ x # post) ys"
  shows "P x (ys ! length pre)"
  using assms list_all2_nthD [of P "pre @ x # post" ys "length pre"] by simp



lemma example_valid: "validate strict_mode (JObj example_fields) = Inr example_record"
  by (simp add: validate_def validate_WorkflowSchema_def validate_Parameter_def
      validate_Citation_def validate_ContainerImage_def model_defs example_defs
      ContainerImage_type_def Parameter_type_def example_record_def)










section \<open>Affiliations and institutions (C5)\<close>

lemma validate_Author_Inr_iff:
  "validate_Author (JObj kvs) = Inr a \<longleftrightarrow>
     required [''name''] validate_str kvs = Inr (Author.name a) \<and>
     with_default [''email''] None (nullable validate_str) kvs = Inr (Author.email a) \<and>
     with_default [''affiliations''] None (nullable (validate_list validate_str)) kvs =
       Inr (Author.affiliations a)"
  by (cases a) (auto simp: validate_Author_def validate_model_def ap_Inr_iff)

lemma validate_strs: "validate_list validate_str (JList (map JStr ss)) = Inr ss"
  by (simp add: validate_list_Inr_iff list_all2_map1 validate_str_def list_all2_same)

lemma Author_put_affiliations:
  "validate_Author (JObj kvs) = Inr a \<Longrightarrow>
   validate_Author (JObj (put ''affiliations'' (JList (map JStr ss)) kvs)) =
     Inr (a\<lparr>Author.affiliations := Some ss\<rparr>)"
  by (simp add: validate_Author_Inr_iff put_other with_default_put at_loc_def nullable_def
      validate_strs)

lemma validate_authors:
  "validate c (JObj kvs) = Inr w \<Longrightarrow> map_of kvs ''authors'' = Some v \<Longrightarrow>
   validate_list validate_Author v = Inr (WorkflowSchema.authors w)"
  by (simp add: validate_Inr_iff with_default_def at_loc_Inr_iff)

lemma validate_put_authors:
  "validate c (JObj kvs) = Inr w \<Longrightarrow> validate_list validate_Author v = Inr as \<Longrightarrow>
   validate c (JObj (put ''authors'' v kvs)) = Inr (w\<lparr>WorkflowSchema.authors := as\<rparr>)"
  by (simp add: validate_Inr_iff put_other with_default_put at_loc_def)

lemma validate_replace_author:
  assumes "validate c (JObj kvs) = Inr w"
    and "map_of kvs ''authors'' = Some (JList (pre @ x # post))"
    and "\<And>a. validate_Author x = Inr a \<Longrightarrow> validate_Author x' = Inr (f a)"
  shows "validate c (JObj (put ''authors'' (JList (pre @ x' # post)) kvs)) =
     Inr (w\<lparr>WorkflowSchema.authors :=
        (WorkflowSchema.authors w)[length pre := f (WorkflowSchema.authors w ! length pre)]\<rparr>)"
proof -
  have all: "list_all2 (\<lambda>x y. validate_Author x = Inr y) (pre @ x # post)
      (WorkflowSchema.authors w)"
    using validate_authors [OF assms(1,2)] by (simp add: validate_list_Inr_iff)
  then have "validate_Author x = Inr (WorkflowSchema.authors w ! length pre)"
    by (rule list_all2_middle)
  then have "validate_Author x' = Inr (f (WorkflowSchema.authors w ! length pre))"
    by (rule assms(3))
  with all have "validate_list validate_Author (JList (pre @ x' # post)) =
      Inr ((WorkflowSchema.authors w)[length pre := f (WorkflowSchema.authors w ! length pre)])"
    unfolding validate_list_Inr_iff by (rule list_all2_replace)
  with assms(1) show ?thesis
    by (rule validate_put_authors)
qed

text \<open>
  C5, as the code has it: \<^verbatim>\<open>affiliations\<close> is an optional list of strings and
  nothing compares it with the institutions. In a valid document, give any author
  any list \<open>ss\<close> of strings as affiliations and replace the institutions by any
  list of valid institutions: the document is valid, and the record has \<open>ss\<close> and
  these institutions.
\<close>

theorem affiliations_not_checked:
  assumes "validate c (JObj kvs) = Inr w"
    and "map_of kvs ''authors'' = Some (JList (pre @ JObj akvs # post))"
    and "validate_list validate_Institution v = Inr is"
  shows "validate c (JObj (put ''institutions'' v (put ''authors''
       (JList (pre @ JObj (put ''affiliations'' (JList (map JStr ss)) akvs) # post)) kvs))) =
     Inr (w\<lparr>WorkflowSchema.authors := (WorkflowSchema.authors w)
            [length pre := (WorkflowSchema.authors w ! length pre)\<lparr>Author.affiliations := Some ss\<rparr>],
          WorkflowSchema.institutions := is\<rparr>)"
proof -
  have "validate c (JObj (put ''authors''
       (JList (pre @ JObj (put ''affiliations'' (JList (map JStr ss)) akvs) # post)) kvs)) =
     Inr (w\<lparr>WorkflowSchema.authors := (WorkflowSchema.authors w)
        [length pre := (WorkflowSchema.authors w ! length pre)\<lparr>Author.affiliations := Some ss\<rparr>]\<rparr>)"
    by (rule validate_replace_author [OF assms(1,2)]) (rule Author_put_affiliations)
  from validate_put_institutions [OF this assms(3)] show ?thesis .
qed

lemma example_author_valid:
  "validate strict_mode (JObj example_author_fields) =
     Inr (example_record\<lparr>WorkflowSchema.authors :=
       [\<lparr>Author.name = ''A. Author'', Author.email = None, Author.affiliations = None\<rparr>]\<rparr>)"
  by (simp add: validate_def validate_WorkflowSchema_def validate_Parameter_def
      validate_Citation_def validate_ContainerImage_def validate_Author_def model_defs
      example_defs ContainerImage_type_def Parameter_type_def example_author_fields_def
      example_record_def)

theorem affiliations_not_checked_witness:
  "validate strict_mode (JObj example_author_fields) =
     Inr (example_record\<lparr>WorkflowSchema.authors :=
       [\<lparr>Author.name = ''A. Author'', Author.email = None, Author.affiliations = None\<rparr>]\<rparr>) \<and>
   map_of example_author_fields ''authors'' =
     Some (JList ([] @ JObj [(''name'', JStr ''A. Author'')] # [])) \<and>
   validate_list validate_Institution (JList [JObj [(''id'', JStr ''inst-y'')]] :: real json) =
     Inr [\<lparr>Institution.id = ''inst-y'', Institution.name = None\<rparr>] \<and>
   validate strict_mode (JObj (put ''institutions'' (JList [JObj [(''id'', JStr ''inst-y'')]])
     (put ''authors'' (JList ([] @ JObj (put ''affiliations'' (JList (map JStr [''inst-x'']))
        [(''name'', JStr ''A. Author'')]) # [])) example_author_fields))) =
     Inr (example_record\<lparr>WorkflowSchema.authors :=
         [\<lparr>Author.name = ''A. Author'', Author.email = None,
           Author.affiliations = Some [''inst-x'']\<rparr>],
       WorkflowSchema.institutions := [\<lparr>Institution.id = ''inst-y'', Institution.name = None\<rparr>]\<rparr>)"
proof -
  have authors: "map_of example_author_fields ''authors'' =
     Some (JList ([] @ JObj [(''name'', JStr ''A. Author'')] # []))"
    by (simp add: example_author_fields_def put_def)
  have insts: "validate_list validate_Institution
      (JList [JObj [(''id'', JStr ''inst-y'')]] :: real json) =
     Inr [\<lparr>Institution.id = ''inst-y'', Institution.name = None\<rparr>]"
    by (simp add: validate_Institution_def model_defs)
  show ?thesis
    using affiliations_not_checked [OF example_author_valid authors insts, of "[''inst-x'']"]
      example_author_valid authors insts
    by simp
qed

text \<open>
  C5 as stated fails: the example with an author affiliated to \<open>inst-x\<close> and the
  one institution \<open>inst-y\<close> validates.
\<close>

theorem unknown_affiliation_accepted:
  "validate strict_mode example_affiliation =
     Inr (example_record\<lparr>WorkflowSchema.authors :=
         [\<lparr>Author.name = ''A. Author'', Author.email = None,
           Author.affiliations = Some [''inst-x'']\<rparr>],
       WorkflowSchema.institutions := [\<lparr>Institution.id = ''inst-y'', Institution.name = None\<rparr>]\<rparr>)"
  by (simp add: validate_def validate_WorkflowSchema_def validate_Parameter_def
      validate_Citation_def validate_ContainerImage_def validate_Author_def
      validate_Institution_def model_defs example_defs ContainerImage_type_def
      Parameter_type_def example_affiliation_def example_record_def)

section \<open>Parameter ids (C6)\<close>

lemma list_all2_in_set:
  "list_all2 P xs ys \<Longrightarrow> x \<in> set xs \<Longrightarrow> \<exists>y \<in> set ys. P x y"
  by (induction rule: list_all2_induct) auto

text \<open>
  C6, as the code has it: ids are not compared. In a valid document, write any one
  of the inputs a second time: the document is valid, and the ids of the inputs in
  the record are not distinct.
\<close>

theorem duplicate_ids_accepted:
  assumes "validate c (JObj kvs) = Inr w" and "map_of kvs ''inputs'' = Some (JList ps)"
    and "p \<in> set ps"
  shows "\<exists>q. validate c (JObj (put ''inputs'' (JList (p # ps)) kvs)) =
       Inr (w\<lparr>WorkflowSchema.inputs := q # WorkflowSchema.inputs w\<rparr>) \<and>
     validate_Parameter c p = Inr q \<and>
     \<not> distinct (map Parameter.id (q # WorkflowSchema.inputs w))"
proof -
  have all: "list_all2 (\<lambda>x y. validate_Parameter c x = Inr y) ps (WorkflowSchema.inputs w)"
    using validate_inputs [OF assms(1,2)] by (simp add: validate_list_Inr_iff)
  with assms(3) obtain q where q: "q \<in> set (WorkflowSchema.inputs w)"
      "validate_Parameter c p = Inr q"
    by (blast dest: list_all2_in_set)
  with all have "validate_list (validate_Parameter c) (JList (p # ps)) =
      Inr (q # WorkflowSchema.inputs w)"
    by (simp add: validate_list_Inr_iff)
  with assms(1) have "validate c (JObj (put ''inputs'' (JList (p # ps)) kvs)) =
       Inr (w\<lparr>WorkflowSchema.inputs := q # WorkflowSchema.inputs w\<rparr>)"
    by (rule validate_put_inputs)
  with q show ?thesis
    by auto
qed

theorem duplicate_ids_accepted_witness:
  "validate strict_mode (JObj example_fields) = Inr example_record \<and>
   map_of example_fields ''inputs'' = Some (JList [minimal_Parameter (''threshold'', ''float'')]) \<and>
   minimal_Parameter (''threshold'', ''float'')
     \<in> set [minimal_Parameter (''threshold'', ''float'') :: real json] \<and>
   (\<exists>q. validate strict_mode (JObj (put ''inputs''
          (JList [minimal_Parameter (''threshold'', ''float''),
                  minimal_Parameter (''threshold'', ''float'')]) example_fields)) =
        Inr (example_record\<lparr>WorkflowSchema.inputs := q # WorkflowSchema.inputs example_record\<rparr>) \<and>
      validate_Parameter strict_mode (minimal_Parameter (''threshold'', ''float'')) = Inr q \<and>
      \<not> distinct (map Parameter.id (q # WorkflowSchema.inputs example_record)))"
proof -
  have inputs: "map_of example_fields ''inputs'' =
      Some (JList [minimal_Parameter (''threshold'', ''float'')])"
    by (simp add: example_fields_def minimal_fields_def)
  have mem: "minimal_Parameter (''threshold'', ''float'')
     \<in> set [minimal_Parameter (''threshold'', ''float'') :: real json]"
    by simp
  show ?thesis
    using duplicate_ids_accepted [OF example_valid inputs mem] example_valid inputs
    by simp
qed

text \<open>
  C6 as stated fails: the example with two inputs of id \<open>threshold\<close> validates,
  and both are in the record.
\<close>

theorem duplicate_threshold_accepted:
  "\<not> isl (validate strict_mode example_duplicate_ids) \<and>
   map Parameter.id (WorkflowSchema.inputs (projr (validate strict_mode example_duplicate_ids))) =
     [''threshold'', ''threshold'']"
  by (simp add: validate_def validate_WorkflowSchema_def validate_Parameter_def
      validate_Citation_def validate_ContainerImage_def model_defs example_defs
      ContainerImage_type_def Parameter_type_def example_duplicate_ids_def)

end
